theory Spec2Isabelle
  imports Main
begin

section \<open>Python values used by stories.py\<close>

text \<open>
  The story functions of stories.py build plain Python dictionaries. A dictionary is
  modelled by an association list under \<open>JDict\<close>, \<open>None\<close> by \<open>JNone\<close>.
  The exceptions the story functions can raise are values of \<open>py_error\<close>.
\<close>

datatype py_error = TypeError | AttributeError | UnboundLocalError | KeyError

text \<open>
  A \<open>datetime\<close> parsed from a GEDCOM date is a calendar day at midnight. The \<open>dt\<close> of
  a marriage's end is such a datetime or, for a marriage that has not ended, a value
  later than any date (\<open>Open\<close>).
\<close>

record datetime =
  year :: int
  month :: int
  day :: int

datatype end_dt = At datetime | Open

datatype json =
    JNone
  | JStr string
  | JInt int
  | JEnd end_dt
  | JList "json list"
  | JDict "(string \<times> json) list"

fun keys :: "json \<Rightarrow> string list" where
  "keys (JDict kvs) = map fst kvs"
| "keys _ = []"

fun get :: "json \<Rightarrow> string \<Rightarrow> json option" where
  "get (JDict kvs) k = map_of kvs k"
| "get _ k = None"

text \<open>
  \<open>r = {"passed": [], "failed": []}\<close>: the two lists every story function fills.
  \<open>tally\<close> is the statement
  \<open>r["passed"].append(out) if passed else r["failed"].append(out)\<close>.
\<close>

record story_output =
  passed :: "json list"
  failed :: "json list"

definition r0 :: story_output where
  "r0 = \<lparr>passed = [], failed = []\<rparr>"

definition append_passed :: "json \<Rightarrow> story_output \<Rightarrow> story_output" where
  "append_passed out r = r\<lparr>passed := passed r @ [out]\<rparr>"

definition append_failed :: "json \<Rightarrow> story_output \<Rightarrow> story_output" where
  "append_failed out r = r\<lparr>failed := failed r @ [out]\<rparr>"

definition tally :: "bool \<Rightarrow> json \<Rightarrow> story_output \<Rightarrow> story_output" where
  "tally ok out r = (if ok then append_passed out r else append_failed out r)"

text \<open>\<open>itertools.combinations(xs, 2)\<close>: the pairs of positions \<open>i < j\<close>, in order.\<close>

fun combinations :: "'a list \<Rightarrow> ('a \<times> 'a) list" where
  "combinations [] = []"
| "combinations (x # xs) = map (Pair x) xs @ combinations xs"

text \<open>
  A raised exception ends the function: \<open>ebind\<close> passes the first error on, and
  \<open>efold\<close> is a \<open>for\<close> loop whose body may raise.
\<close>

definition ebind :: "'e + 'a \<Rightarrow> ('a \<Rightarrow> 'e + 'b) \<Rightarrow> 'e + 'b" where
  "ebind m f = (case m of Inl e \<Rightarrow> Inl e | Inr x \<Rightarrow> f x)"

fun efold :: "('a \<Rightarrow> 's \<Rightarrow> 'e + 's) \<Rightarrow> 'a list \<Rightarrow> 's \<Rightarrow> 'e + 's" where
  "efold f [] s = Inr s"
| "efold f (x # xs) s = (case f x s of Inl e \<Rightarrow> Inl e | Inr s' \<Rightarrow> efold f xs s')"

section \<open>Dates\<close>

text \<open>
  Python orders datetimes by year, month, day, and \<open>(a - b).days\<close> is the difference
  of the proleptic Gregorian ordinals.
\<close>

definition dt_less :: "datetime \<Rightarrow> datetime \<Rightarrow> bool" where
  "dt_less a b =
     (year a < year b \<or> (year a = year b \<and>
        (month a < month b \<or> (month a = month b \<and> day a < day b))))"

definition dt_le :: "datetime \<Rightarrow> datetime \<Rightarrow> bool" where
  "dt_le a b = (dt_less a b \<or> (year a = year b \<and> month a = month b \<and> day a = day b))"

definition is_leap :: "int \<Rightarrow> bool" where
  "is_leap y = (y mod 4 = 0 \<and> (y mod 100 \<noteq> 0 \<or> y mod 400 = 0))"

definition days_before_year :: "int \<Rightarrow> int" where
  "days_before_year y = (y - 1) * 365 + (y - 1) div 4 - (y - 1) div 100 + (y - 1) div 400"

definition days_before_month :: "int \<Rightarrow> int \<Rightarrow> int" where
  "days_before_month y m =
     (if m = 1 then 0 else if m = 2 then 31 else
        (if m = 3 then 59 else if m = 4 then 90 else if m = 5 then 120
         else if m = 6 then 151 else if m = 7 then 181 else if m = 8 then 212
         else if m = 9 then 243 else if m = 10 then 273 else if m = 11 then 304
         else 334) + (if is_leap y then 1 else 0))"

definition toordinal :: "datetime \<Rightarrow> int" where
  "toordinal d = days_before_year (year d) + days_before_month (year d) (month d) + day d"

definition days :: "datetime \<Rightarrow> datetime \<Rightarrow> int" where
  \<comment> \<open>\<open>(a - b).days\<close>\<close>
  "days a b = toordinal a - toordinal b"

text \<open>
  Modelled from the spec: tools.py (\<open>days_between\<close>, \<open>years_between\<close>) is not among the
  sources. The spec speaks of birth dates that "differ by" a number of days, so
  \<open>days_between\<close> is the unsigned distance in whole days; durations in years are
  "calendar-correct year subtraction (not a fixed 365-day divisor)", a signed count of
  the anniversaries of \<open>b\<close> reached at \<open>a\<close>.
\<close>

definition days_between :: "datetime \<Rightarrow> datetime \<Rightarrow> int" where
  "days_between a b = \<bar>days a b\<bar>"

definition years_between :: "datetime \<Rightarrow> datetime \<Rightarrow> int" where
  "years_between a b =
     year a - year b -
       (if month a < month b \<or> (month a = month b \<and> day a < day b) then 1 else 0)"

section \<open>The record graph\<close>

text \<open>
  Modelled from the spec: gedcom.py (the classes \<open>File\<close>, \<open>Individual\<close>, \<open>Family\<close> and
  the date line) is not among the sources. Following the spec's data model, an
  individual has an xref, optional birth and death dates and ordered lists of
  family-as-spouse and family-as-child links; a family has an xref, an optional husband
  and wife reference, an ordered list of child references and optional marriage and
  divorce dates. A date line carries its datetime and its line of origin. The stories
  read \<open>fam.husband\<close>, \<open>fam.wife\<close> and the date attributes unguarded where they format
  messages, so an absent one reads as \<open>None\<close>; \<open>x.has("a")\<close> says that attribute \<open>a\<close>
  of \<open>x\<close> is not \<open>None\<close>. References are xrefs, resolved among the individuals and
  families of the file.
\<close>

record date_line =
  dt :: datetime
  line_number :: int
  line_value :: string

record individual =
  xref :: string
  birth_date :: "date_line option"
  death_date :: "date_line option"
  fams :: "string list"
  famc :: "string list"

record family =
  fam_xref :: string
  husb :: "string option"
  wife_ref :: "string option"
  chil :: "string list"
  marriage_date :: "date_line option"
  divorce_date :: "date_line option"

record gedcom_file =
  individuals :: "individual list"
  families :: "family list"

definition story_dict :: "date_line \<Rightarrow> json" where
  "story_dict d = JDict [(''line_value'', JStr (line_value d)), (''line_number'', JInt (line_number d))]"

definition find_individual :: "gedcom_file \<Rightarrow> string \<Rightarrow> individual option" where
  "find_individual g x = find (\<lambda>i. xref i = x) (individuals g)"


definition husband :: "gedcom_file \<Rightarrow> family \<Rightarrow> individual option" where
  "husband g fam = (case husb fam of None \<Rightarrow> None | Some x \<Rightarrow> find_individual g x)"

definition wife :: "gedcom_file \<Rightarrow> family \<Rightarrow> individual option" where
  "wife g fam = (case wife_ref fam of None \<Rightarrow> None | Some x \<Rightarrow> find_individual g x)"

definition children :: "gedcom_file \<Rightarrow> family \<Rightarrow> individual list" where
  "children g fam = List.map_filter (find_individual g) (chil fam)"


definition date_less :: "date_line \<Rightarrow> date_line \<Rightarrow> bool" where
  \<comment> \<open>\<open>a < b\<close> on date lines: the order of their calendar dates\<close>
  "date_less a b = dt_less (dt a) (dt b)"

definition xref_or_None :: "individual option \<Rightarrow> json" where
  \<comment> \<open>\<open>fam.wife.xref if fam.has("wife") else None\<close>\<close>
  "xref_or_None p = (case p of None \<Rightarrow> JNone | Some i \<Rightarrow> JStr (xref i))"

definition story_dict_or_None :: "date_line option \<Rightarrow> json" where
  "story_dict_or_None d = (case d of None \<Rightarrow> JNone | Some x \<Rightarrow> story_dict x)"

definition with_birth_date :: "individual list \<Rightarrow> (individual \<times> date_line) list" where
  \<comment> \<open>\<open>(c for c in cs if c.has("birth_date"))\<close>, each kept with its birth date\<close>
  "with_birth_date cs = List.map_filter (\<lambda>c. map_option (Pair c) (birth_date c)) cs"

definition with_marriage_date :: "family list \<Rightarrow> (family \<times> date_line) list" where
  \<comment> \<open>\<open>(f for f in fs if f.has("marriage_date"))\<close>, each kept with its marriage date\<close>
  "with_marriage_date fs = List.map_filter (\<lambda>f. map_option (Pair f) (marriage_date f)) fs"

definition with_divorce_date :: "family list \<Rightarrow> (family \<times> date_line) list" where
  \<comment> \<open>\<open>(f for f in fs if f.has("divorce_date"))\<close>, each kept with its divorce date\<close>
  "with_divorce_date fs = List.map_filter (\<lambda>f. map_option (Pair f) (divorce_date f)) fs"

text \<open>
  Modelled from the spec: the properties \<open>spouses\<close>, \<open>wife_marriage_age\<close>,
  \<open>husband_marriage_age\<close> and \<open>age\<close> of gedcom.py are not among the sources. The
  spouses of an individual are "the husband/wife counterparts across every Family in
  which the individual is husband or wife". A marriage age is the duration in whole
  calendar years from the spouse's birth to the marriage. The age of an individual is
  the duration in whole calendar years from the birth to the death date if present, else
  to the current date.
\<close>

definition counterpart :: "gedcom_file \<Rightarrow> individual \<Rightarrow> family \<Rightarrow> individual option" where
  "counterpart g indi fam =
     (if husb fam = Some (xref indi) then wife g fam
      else if wife_ref fam = Some (xref indi) then husband g fam
      else None)"

definition spouses :: "gedcom_file \<Rightarrow> individual \<Rightarrow> individual list" where
  "spouses g indi = List.map_filter (counterpart g indi) (families g)"

definition marriage_age :: "date_line \<Rightarrow> date_line \<Rightarrow> int" where
  "marriage_age marr birth = years_between (dt marr) (dt birth)"


definition spouse_death :: "individual option \<Rightarrow> date_line option" where
  "spouse_death p = (case p of None \<Rightarrow> None | Some i \<Rightarrow> death_date i)"

text \<open>
  \<open>fam.marriage_end\<close> is a dictionary with the keys \<open>dt\<close>, \<open>story_dict\<close> and \<open>reason\<close>,
  which no_bigamy reads and from which it pops \<open>dt\<close>. The dictionaries alive during a
  call are kept in a store, addressed by number, so that \<open>end1.pop("dt")\<close> is a write to
  the store. The property \<open>marriage_end\<close> itself belongs to gedcom.py and is a parameter
  of no_bigamy below: from the family and the store it gives the address of the
  dictionary it hands out and the store after the access. Whether that dictionary is
  made anew at each access or kept by the family is thereby left open.
\<close>

fun dt_le_end :: "datetime \<Rightarrow> end_dt \<Rightarrow> bool" where
  \<comment> \<open>\<open>start <= end["dt"]\<close>\<close>
  "dt_le_end s (At e) = dt_le s e"
| "dt_le_end s Open = True"

fun end_ge_dt :: "end_dt \<Rightarrow> datetime \<Rightarrow> bool" where
  \<comment> \<open>\<open>end["dt"] >= start\<close>\<close>
  "end_ge_dt (At e) s = dt_le s e"
| "end_ge_dt Open s = True"

record end_dict =
  end_dt :: "end_dt option"  \<comment> \<open>the key \<open>dt\<close>; \<open>None\<close> once it is popped\<close>
  end_story_dict :: json
  end_reason :: string






section \<open>The story functions\<close>

text \<open>
  Each function follows its source statement by statement. The rendered
  \<open>out["message"]\<close> is left out of the evidence: its text is the string form of gedcom
  objects, which stories.py does not define, and formatting cannot raise.
\<close>

subsection \<open>US01 dates_before_current_date\<close>







subsection \<open>US02 birth_before_marriage\<close>




subsection \<open>US03 birth_before_death\<close>




subsection \<open>US04 marriage_before_divorce\<close>




subsection \<open>US05 marriage_before_death\<close>

definition has_death_date :: "individual option \<Rightarrow> py_error + date_line option" where
  \<comment> \<open>\<open>p.has("death_date")\<close>, with the date where it holds; \<open>None\<close> has no attribute \<open>has\<close>\<close>
  "has_death_date p = (case p of None \<Rightarrow> Inl AttributeError | Some i \<Rightarrow> Inr (death_date i))"

definition marriage_before_death_out :: "gedcom_file \<Rightarrow> family \<Rightarrow> date_line \<Rightarrow> json" where
  "marriage_before_death_out g fam marr =
     JDict [(''family_xref'', JStr (fam_xref fam)),
            (''marriage_date'', story_dict marr),
            (''husband_xref'', xref_or_None (husband g fam)),
            (''wife_xref'', xref_or_None (wife g fam)),
            (''husband_death_date'', story_dict_or_None (spouse_death (husband g fam))),
            (''wife_death_date'', story_dict_or_None (spouse_death (wife g fam)))]"

text \<open>
  The chain \<open>if h and w: ... elif h: ... elif w: ...\<close> with
  \<open>h = fam.husband.has("death_date")\<close> and \<open>w = fam.wife.has("death_date")\<close>: \<open>h\<close> is
  always evaluated, \<open>w\<close> in the first test when \<open>h\<close> holds and in the last otherwise.
\<close>

definition marriage_before_death_fam ::
  "gedcom_file \<Rightarrow> family \<times> date_line \<Rightarrow> story_output \<Rightarrow> py_error + story_output" where
  "marriage_before_death_fam g fm r =
     (case fm of (fam, marr) \<Rightarrow>
        ebind (has_death_date (husband g fam)) (\<lambda>h.
          case h of
            Some h_death \<Rightarrow>
              ebind (has_death_date (wife g fam)) (\<lambda>w.
                case w of
                  Some w_death \<Rightarrow>
                    Inr (tally (date_less marr h_death \<and> date_less marr w_death)
                           (marriage_before_death_out g fam marr) r)
                | None \<Rightarrow>
                    Inr (tally (date_less marr h_death) (marriage_before_death_out g fam marr) r))
          | None \<Rightarrow>
              ebind (has_death_date (wife g fam)) (\<lambda>w.
                case w of
                  Some w_death \<Rightarrow>
                    Inr (tally (date_less marr w_death) (marriage_before_death_out g fam marr) r)
                | None \<Rightarrow> Inr r)))"

definition marriage_before_death :: "gedcom_file \<Rightarrow> py_error + story_output" where
  "marriage_before_death g = efold (marriage_before_death_fam g) (with_marriage_date (families g)) r0"

subsection \<open>US06 divorce_before_death\<close>

definition divorce_before_death_wife_death_date :: "gedcom_file \<Rightarrow> family \<Rightarrow> py_error + json" where
  \<comment> \<open>\<open>fam.wife.death_date.story_dict if fam.has("husband") and fam.husband.has("death_date") else None\<close>\<close>
  "divorce_before_death_wife_death_date g fam =
     (case spouse_death (husband g fam) of
        None \<Rightarrow> Inr JNone
      | Some h_death \<Rightarrow>
          (case wife g fam of
             None \<Rightarrow> Inl AttributeError
           | Some w \<Rightarrow>
               (case death_date w of None \<Rightarrow> Inl AttributeError | Some w_death \<Rightarrow> Inr (story_dict w_death))))"

definition divorce_before_death_out :: "gedcom_file \<Rightarrow> family \<Rightarrow> date_line \<Rightarrow> py_error + json" where
  "divorce_before_death_out g fam divorce =
     ebind (divorce_before_death_wife_death_date g fam) (\<lambda>wife_death_date.
       Inr (JDict [(''family_xref'', JStr (fam_xref fam)),
                   (''divorce_date'', story_dict divorce),
                   (''husband_xref'', xref_or_None (husband g fam)),
                   (''wife_xref'', xref_or_None (wife g fam)),
                   (''husband_death_date'', story_dict_or_None (spouse_death (husband g fam))),
                   (''wife_death_date'', wife_death_date)]))"

definition divorce_before_death_fam ::
  "gedcom_file \<Rightarrow> family \<times> date_line \<Rightarrow> story_output \<Rightarrow> py_error + story_output" where
  "divorce_before_death_fam g fd r =
     (case fd of (fam, divorce) \<Rightarrow>
        ebind (divorce_before_death_out g fam divorce) (\<lambda>out.
        ebind (has_death_date (husband g fam)) (\<lambda>h.
          case h of
            Some h_death \<Rightarrow>
              ebind (has_death_date (wife g fam)) (\<lambda>w.
                case w of
                  Some w_death \<Rightarrow>
                    Inr (tally (date_less h_death divorce \<and> date_less w_death divorce) out r)
                | None \<Rightarrow> Inr (tally (date_less h_death divorce) out r))
          | None \<Rightarrow>
              ebind (has_death_date (wife g fam)) (\<lambda>w.
                case w of
                  Some w_death \<Rightarrow> Inr (tally (date_less w_death divorce) out r)
                | None \<Rightarrow> Inr r))))"

definition divorce_before_death :: "gedcom_file \<Rightarrow> py_error + story_output" where
  "divorce_before_death g = efold (divorce_before_death_fam g) (with_divorce_date (families g)) r0"

subsection \<open>US07 less_then_150_years_old\<close>



subsection \<open>US08 birth_before_marriage_of_parents\<close>




subsection \<open>US09 birth_before_death_of_parents\<close>

text \<open>
  \<open>mom_pass\<close> and \<open>dad_pass\<close> are \<open>None\<close> where the parent is absent or has no death date.
  Where the parent has a death date, the source reads the parent's \<open>birth_date\<close>:
  \<open>child.birth_date < fam.wife.birth_date\<close> and
  \<open>((fam.husband.birth_date.dt - child.birth_date.dt).days / 30) > 9\<close>, with Python 2's
  integer division (the module uses the \<open>print\<close> statement). A father with a death
  date and no birth date makes the source read \<open>None.dt\<close>, an AttributeError; for a mother
  with a death date and no birth date the source compares a date line with \<open>None\<close>, which
  is taken to raise in the same way, the order of date lines being an order of their
  datetimes.
\<close>

definition spouse_birth :: "individual option \<Rightarrow> date_line option" where
  "spouse_birth p = (case p of None \<Rightarrow> None | Some i \<Rightarrow> birth_date i)"

definition mom_pass :: "gedcom_file \<Rightarrow> family \<Rightarrow> date_line \<Rightarrow> py_error + bool option" where
  "mom_pass g fam birth =
     (case spouse_death (wife g fam) of
        None \<Rightarrow> Inr None
      | Some w_death \<Rightarrow>
          (case spouse_birth (wife g fam) of
             None \<Rightarrow> Inl AttributeError
           | Some w_birth \<Rightarrow> Inr (Some (date_less birth w_birth))))"

definition dad_pass :: "gedcom_file \<Rightarrow> family \<Rightarrow> date_line \<Rightarrow> py_error + bool option" where
  "dad_pass g fam birth =
     (case spouse_death (husband g fam) of
        None \<Rightarrow> Inr None
      | Some h_death \<Rightarrow>
          (case spouse_birth (husband g fam) of
             None \<Rightarrow> Inl AttributeError
           | Some h_birth \<Rightarrow> Inr (Some (days (dt h_birth) (dt birth) div 30 > 9))))"

definition parent_entry :: "individual option \<Rightarrow> bool option \<Rightarrow> json" where
  \<comment> \<open>\<open>out["mother"]\<close> and \<open>out["father"]\<close>\<close>
  "parent_entry p pass =
     (case pass of
        None \<Rightarrow> JDict [(''xref'', xref_or_None p), (''birth_date'', JNone)]
      | Some b \<Rightarrow> JDict [(''xref'', xref_or_None p), (''birth_date'', story_dict_or_None (spouse_birth p))])"

definition birth_before_death_of_parents_out ::
  "gedcom_file \<Rightarrow> family \<Rightarrow> individual \<Rightarrow> date_line \<Rightarrow> bool option \<Rightarrow> bool option \<Rightarrow> json" where
  "birth_before_death_of_parents_out g fam child birth mp dp =
     JDict [(''family_xref'', JStr (fam_xref fam)),
            (''child'', JDict [(''xref'', JStr (xref child)), (''birth_date'', story_dict birth)]),
            (''mother'', parent_entry (wife g fam) mp),
            (''father'', parent_entry (husband g fam) dp)]"

definition birth_before_death_of_parents_child ::
  "gedcom_file \<Rightarrow> family \<Rightarrow> individual \<times> date_line \<Rightarrow> story_output \<Rightarrow> py_error + story_output" where
  "birth_before_death_of_parents_child g fam cb r =
     (case cb of (child, birth) \<Rightarrow>
        ebind (mom_pass g fam birth) (\<lambda>mp.
        ebind (dad_pass g fam birth) (\<lambda>dp.
          Inr (tally ((mp = None \<or> mp = Some True) \<and> (dp = None \<or> dp = Some True))
                 (birth_before_death_of_parents_out g fam child birth mp dp) r))))"

definition birth_before_death_of_parents_fam ::
  "gedcom_file \<Rightarrow> family \<Rightarrow> story_output \<Rightarrow> py_error + story_output" where
  "birth_before_death_of_parents_fam g fam r =
     efold (birth_before_death_of_parents_child g fam) (with_birth_date (children g fam)) r"

definition birth_before_death_of_parents :: "gedcom_file \<Rightarrow> py_error + story_output" where
  "birth_before_death_of_parents g = efold (birth_before_death_of_parents_fam g) (families g) r0"

subsection \<open>US10 marriage_after_14\<close>

definition marriage_after_14_out ::
  "family \<Rightarrow> date_line \<Rightarrow> individual \<Rightarrow> date_line \<Rightarrow> individual \<Rightarrow> date_line \<Rightarrow> json" where
  "marriage_after_14_out fam marr w w_birth h h_birth =
     JDict [(''family'', JDict [(''xref'', JStr (fam_xref fam))]),
            (''wife'', JDict [(''xref'', JStr (xref w)), (''birth_date'', story_dict w_birth),
                              (''marriage_age'', JInt (marriage_age marr w_birth))]),
            (''husband'', JDict [(''xref'', JStr (xref h)), (''birth_date'', story_dict h_birth),
                                 (''marriage_age'', JInt (marriage_age marr h_birth))])]"

definition marriage_after_14_fam :: "gedcom_file \<Rightarrow> family \<Rightarrow> story_output \<Rightarrow> story_output" where
  "marriage_after_14_fam g fam r =
     (case marriage_date fam of
        None \<Rightarrow> r
      | Some marr \<Rightarrow>
          (case husband g fam of
             None \<Rightarrow> r
           | Some h \<Rightarrow>
               (case birth_date h of
                  None \<Rightarrow> r
                | Some h_birth \<Rightarrow>
                    (case wife g fam of
                       None \<Rightarrow> r
                     | Some w \<Rightarrow>
                         (case birth_date w of
                            None \<Rightarrow> r
                          | Some w_birth \<Rightarrow>
                              tally (marriage_age marr w_birth > 14 \<and> marriage_age marr h_birth > 14)
                                (marriage_after_14_out fam marr w w_birth h h_birth) r)))))"

definition marriage_after_14 :: "gedcom_file \<Rightarrow> story_output" where
  "marriage_after_14 g = fold (marriage_after_14_fam g) (families g) r0"

subsection \<open>US11 no_bigamy\<close>

text \<open>
  \<open>failed = (start1.dt <= end2["dt"]) and (end1["dt"] >= start2.dt)\<close>. Both ends are
  read before the test here; Python reads \<open>end1["dt"]\<close> only when the first comparison
  holds, and the \<open>end1.pop("dt")\<close> that follows raises the same KeyError where the key
  is missing.
\<close>

definition no_bigamy_failed :: "datetime \<Rightarrow> end_dt \<Rightarrow> datetime \<Rightarrow> end_dt \<Rightarrow> bool" where
  "no_bigamy_failed start1 end1 start2 end2 = (dt_le_end start1 end2 \<and> end_ge_dt end1 start2)"





subsection \<open>US12 parents_not_too_old\<close>




subsection \<open>US13 siblings_spacing\<close>

definition siblings_spacing_out ::
  "gedcom_file \<Rightarrow> family \<Rightarrow> (individual \<times> date_line) \<times> (individual \<times> date_line) \<Rightarrow> json" where
  "siblings_spacing_out g fam p =
     (case p of ((sib_a, birth_a), (sib_b, birth_b)) \<Rightarrow>
        JDict [(''family_xref'', JStr (fam_xref fam)),
               (''mother_xref'', xref_or_None (wife g fam)),
               (''father_xref'', xref_or_None (husband g fam)),
               (''days_apart'', JInt (days_between (dt birth_a) (dt birth_b))),
               (''sibling_one'', JDict [(''xref'', JStr (xref sib_a)), (''birth_date'', story_dict birth_a)]),
               (''sibling_two'', JDict [(''xref'', JStr (xref sib_b)), (''birth_date'', story_dict birth_b)])])"

definition siblings_spacing_ok :: "(individual \<times> date_line) \<times> (individual \<times> date_line) \<Rightarrow> bool" where
  "siblings_spacing_ok p =
     (case p of ((sib_a, birth_a), (sib_b, birth_b)) \<Rightarrow>
        days_between (dt birth_a) (dt birth_b) < 2 \<or> days_between (dt birth_a) (dt birth_b) > 240)"

definition siblings_spacing_fam :: "gedcom_file \<Rightarrow> family \<Rightarrow> story_output \<Rightarrow> story_output" where
  "siblings_spacing_fam g fam r =
     (let siblings = with_birth_date (children g fam)
      in if length siblings \<ge> 2
         then fold (\<lambda>p. tally (siblings_spacing_ok p) (siblings_spacing_out g fam p))
                (combinations siblings) r
         else r)"

definition siblings_spacing :: "gedcom_file \<Rightarrow> story_output" where
  "siblings_spacing g = fold (siblings_spacing_fam g) (families g) r0"

subsection \<open>US14 to US17\<close>





subsection \<open>US18 siblings_should_not_marry\<close>

text \<open>
  \<open>out\<close> and \<open>msg_out\<close> are assigned in the innermost loop only and read after it; they
  are function locals, so they keep the value of an earlier iteration, and reading them
  before any assignment raises UnboundLocalError. The local \<open>out\<close> is \<open>None\<close> here
  while it is unbound.
\<close>

definition siblings_should_not_marry_out :: "individual \<Rightarrow> family \<Rightarrow> json" where
  "siblings_should_not_marry_out indi fam =
     JDict [(''indi'', JDict [(''xref'', JStr (xref indi))]),
            (''fam'', JDict [(''xref'', JStr (fam_xref fam))])]"

definition siblings_should_not_marry_sibling ::
  "family \<Rightarrow> individual \<Rightarrow> individual \<Rightarrow> individual \<Rightarrow>
     story_output \<times> json option \<times> nat \<Rightarrow> story_output \<times> json option \<times> nat" where
  "siblings_should_not_marry_sibling fam indi spouse sibling s =
     (case s of (r, out, married_to_sibling) \<Rightarrow>
        if xref sibling = xref spouse
        then (append_failed (siblings_should_not_marry_out indi fam) r,
              Some (siblings_should_not_marry_out indi fam), married_to_sibling + 1)
        else (r, Some (siblings_should_not_marry_out indi fam), married_to_sibling))"

definition siblings_should_not_marry_spouse ::
  "gedcom_file \<Rightarrow> family \<Rightarrow> individual \<Rightarrow> individual \<Rightarrow>
     story_output \<times> json option \<Rightarrow> py_error + story_output \<times> json option" where
  "siblings_should_not_marry_spouse g fam indi spouse s =
     (case s of (r, out) \<Rightarrow>
        (case fold (siblings_should_not_marry_sibling fam indi spouse)
                (filter (\<lambda>s. xref s \<noteq> xref indi) (children g fam)) (r, out, 0) of
           (r', out', married_to_sibling) \<Rightarrow>
             if married_to_sibling = 0
             then (case out' of
                     None \<Rightarrow> Inl UnboundLocalError
                   | Some ob \<Rightarrow> Inr (append_passed ob r', out'))
             else Inr (r', out')))"

definition siblings_should_not_marry_indi ::
  "gedcom_file \<Rightarrow> family \<Rightarrow> individual \<Rightarrow>
     story_output \<times> json option \<Rightarrow> py_error + story_output \<times> json option" where
  "siblings_should_not_marry_indi g fam indi s =
     efold (siblings_should_not_marry_spouse g fam indi) (spouses g indi) s"

definition siblings_should_not_marry_fam ::
  "gedcom_file \<Rightarrow> family \<Rightarrow> story_output \<times> json option \<Rightarrow> py_error + story_output \<times> json option" where
  "siblings_should_not_marry_fam g fam s =
     efold (siblings_should_not_marry_indi g fam) (children g fam) s"

definition siblings_should_not_marry :: "gedcom_file \<Rightarrow> py_error + story_output" where
  "siblings_should_not_marry g =
     ebind (efold (siblings_should_not_marry_fam g) (families g) (r0, None)) (\<lambda>s. Inr (fst s))"

subsection \<open>US19 to US24\<close>







subsection \<open>The decorator story\<close>

text \<open>
  \<open>@story(id_)\<close> replaces a story function \<open>func\<close> by a wrapper that raises TypeError
  unless its argument is a \<open>gedcom.File\<close> and otherwise returns
  \<open>{"id": id_, "name": func.__name__, "output": func(gedcom_file)}\<close>. The decorator
  \<open>log\<close> around it writes one log line per entry of the output and returns the same
  dictionary.
\<close>

datatype py_object = GedcomFile gedcom_file | NotGedcomFile

definition output_json :: "story_output \<Rightarrow> json" where
  "output_json r = JDict [(''passed'', JList (passed r)), (''failed'', JList (failed r))]"

definition story ::
  "string \<Rightarrow> string \<Rightarrow> (gedcom_file \<Rightarrow> py_error + story_output) \<Rightarrow> py_object \<Rightarrow> py_error + json" where
  "story story_id name func obj =
     (case obj of
        NotGedcomFile \<Rightarrow> Inl TypeError
      | GedcomFile gedcom_file \<Rightarrow>
          ebind (func gedcom_file) (\<lambda>r.
            Inr (JDict [(''id'', JStr story_id), (''name'', JStr name), (''output'', output_json r)])))"

section \<open>Reading a result\<close>

text \<open>
  The evidence of a result: the entries of its two lists. \<open>getpath e [k1, k2]\<close> is
  \<open>e[k1][k2]\<close> where the keys exist. \<open>unnamed path x r\<close> says that no evidence entry of \<open>r\<close>
  holds the xref \<open>x\<close> at \<open>path\<close>. \<open>placed ok e r\<close> says where the entry \<open>e\<close> stands
  in \<open>r\<close>: in \<open>passed\<close> where \<open>ok\<close> holds, in \<open>failed\<close> where it does not.
\<close>

definition evidence :: "story_output \<Rightarrow> json set" where
  "evidence r = set (passed r @ failed r)"

fun getpath :: "json \<Rightarrow> string list \<Rightarrow> json option" where
  "getpath e [] = Some e"
| "getpath e (k # ks) = (case get e k of None \<Rightarrow> None | Some d \<Rightarrow> getpath d ks)"

definition unnamed :: "string list \<Rightarrow> string \<Rightarrow> story_output \<Rightarrow> bool" where
  "unnamed path x r = (\<forall>e\<in>evidence r. getpath e path \<noteq> Some (JStr x))"


section \<open>Example record graphs\<close>

definition mk_date :: "int \<Rightarrow> int \<Rightarrow> int \<Rightarrow> int \<Rightarrow> string \<Rightarrow> date_line" where
  "mk_date y m d n v = \<lparr>dt = \<lparr>year = y, month = m, day = d\<rparr>, line_number = n, line_value = v\<rparr>"

text \<open>A family with two children born on 1 JAN 2000 and on 3 JAN 2000.\<close>

definition sib_birth_1 :: date_line where
  "sib_birth_1 = mk_date 2000 1 1 3 ''1 JAN 2000''"

definition sib_birth_2 :: date_line where
  "sib_birth_2 = mk_date 2000 1 3 7 ''3 JAN 2000''"

definition sib_1 :: individual where
  "sib_1 = \<lparr>xref = ''I1'', birth_date = Some sib_birth_1, death_date = None, fams = [], famc = [''F1'']\<rparr>"

definition sib_2 :: individual where
  "sib_2 = \<lparr>xref = ''I2'', birth_date = Some sib_birth_2, death_date = None, fams = [], famc = [''F1'']\<rparr>"

definition sib_fam :: family where
  "sib_fam = \<lparr>fam_xref = ''F1'', husb = None, wife_ref = None, chil = [''I1'', ''I2''],
               marriage_date = None, divorce_date = None\<rparr>"

definition sib_file :: gedcom_file where
  "sib_file = \<lparr>individuals = [sib_1, sib_2], families = [sib_fam]\<rparr>"

text \<open>A family with a marriage date and neither husband nor wife.\<close>

definition mbd_fam :: family where
  "mbd_fam = \<lparr>fam_xref = ''F1'', husb = None, wife_ref = None, chil = [],
               marriage_date = Some (mk_date 1990 6 1 4 ''1 JUN 1990''), divorce_date = None\<rparr>"

definition mbd_file :: gedcom_file where
  "mbd_file = \<lparr>individuals = [], families = [mbd_fam]\<rparr>"

text \<open>
  A couple married on 1 JAN 2000, the husband born on 1 JAN 1986 (14 years before, to the
  day), the wife on 1 JAN 1970.
\<close>

definition ma_marriage :: date_line where
  "ma_marriage = mk_date 2000 1 1 12 ''1 JAN 2000''"

definition ma_husband_birth :: date_line where
  "ma_husband_birth = mk_date 1986 1 1 3 ''1 JAN 1986''"

definition ma_wife_birth :: date_line where
  "ma_wife_birth = mk_date 1970 1 1 8 ''1 JAN 1970''"

definition ma_husband :: individual where
  "ma_husband = \<lparr>xref = ''I1'', birth_date = Some ma_husband_birth, death_date = None,
                  fams = [''F1''], famc = []\<rparr>"

definition ma_wife :: individual where
  "ma_wife = \<lparr>xref = ''I2'', birth_date = Some ma_wife_birth, death_date = None,
               fams = [''F1''], famc = []\<rparr>"

definition ma_fam :: family where
  "ma_fam = \<lparr>fam_xref = ''F1'', husb = Some ''I1'', wife_ref = Some ''I2'', chil = [],
              marriage_date = Some ma_marriage, divorce_date = None\<rparr>"

definition ma_file :: gedcom_file where
  "ma_file = \<lparr>individuals = [ma_husband, ma_wife], families = [ma_fam]\<rparr>"

text \<open>
  A couple divorced on 1 JAN 2000; the husband has no death date, the wife died on
  1 JAN 2010.
\<close>

definition db_divorce :: date_line where
  "db_divorce = mk_date 2000 1 1 14 ''1 JAN 2000''"

definition db_wife_death :: date_line where
  "db_wife_death = mk_date 2010 1 1 9 ''1 JAN 2010''"

definition db_husband :: individual where
  "db_husband = \<lparr>xref = ''I1'', birth_date = None, death_date = None, fams = [''F1''], famc = []\<rparr>"

definition db_wife :: individual where
  "db_wife = \<lparr>xref = ''I2'', birth_date = None, death_date = Some db_wife_death,
               fams = [''F1''], famc = []\<rparr>"

definition db_fam :: family where
  "db_fam = \<lparr>fam_xref = ''F1'', husb = Some ''I1'', wife_ref = Some ''I2'', chil = [],
              marriage_date = None, divorce_date = Some db_divorce\<rparr>"

definition db_file :: gedcom_file where
  "db_file = \<lparr>individuals = [db_husband, db_wife], families = [db_fam]\<rparr>"

text \<open>
  A family whose father lived from 1 JAN 1948 to 1 JAN 1999 and whose mother lived from
  1 JAN 1950 to 1 JAN 2000, with a child born on 1 JAN 1980.
\<close>

definition bp_child_birth :: date_line where
  "bp_child_birth = mk_date 1980 1 1 13 ''1 JAN 1980''"

definition bp_father_birth :: date_line where
  "bp_father_birth = mk_date 1948 1 1 3 ''1 JAN 1948''"

definition bp_father_death :: date_line where
  "bp_father_death = mk_date 1999 1 1 5 ''1 JAN 1999''"

definition bp_mother_birth :: date_line where
  "bp_mother_birth = mk_date 1950 1 1 8 ''1 JAN 1950''"

definition bp_mother_death :: date_line where
  "bp_mother_death = mk_date 2000 1 1 10 ''1 JAN 2000''"

definition bp_father :: individual where
  "bp_father = \<lparr>xref = ''I1'', birth_date = Some bp_father_birth, death_date = Some bp_father_death,
                 fams = [''F1''], famc = []\<rparr>"

definition bp_mother :: individual where
  "bp_mother = \<lparr>xref = ''I2'', birth_date = Some bp_mother_birth, death_date = Some bp_mother_death,
                 fams = [''F1''], famc = []\<rparr>"

definition bp_child :: individual where
  "bp_child = \<lparr>xref = ''I3'', birth_date = Some bp_child_birth, death_date = None,
                fams = [], famc = [''F1'']\<rparr>"

definition bp_fam :: family where
  "bp_fam = \<lparr>fam_xref = ''F1'', husb = Some ''I1'', wife_ref = Some ''I2'', chil = [''I3''],
              marriage_date = None, divorce_date = None\<rparr>"

definition bp_file :: gedcom_file where
  "bp_file = \<lparr>individuals = [bp_father, bp_mother, bp_child], families = [bp_fam]\<rparr>"

text \<open>
  A family \<open>F1\<close> whose only child \<open>I1\<close> is the husband of \<open>I2\<close> in the family \<open>F2\<close>.
\<close>

definition sm_child :: individual where
  "sm_child = \<lparr>xref = ''I1'', birth_date = None, death_date = None, fams = [''F2''], famc = [''F1'']\<rparr>"

definition sm_spouse :: individual where
  "sm_spouse = \<lparr>xref = ''I2'', birth_date = None, death_date = None, fams = [''F2''], famc = []\<rparr>"

definition sm_fam_1 :: family where
  "sm_fam_1 = \<lparr>fam_xref = ''F1'', husb = None, wife_ref = None, chil = [''I1''],
                marriage_date = None, divorce_date = None\<rparr>"

definition sm_fam_2 :: family where
  "sm_fam_2 = \<lparr>fam_xref = ''F2'', husb = Some ''I1'', wife_ref = Some ''I2'', chil = [],
                marriage_date = None, divorce_date = None\<rparr>"

definition sm_file :: gedcom_file where
  "sm_file = \<lparr>individuals = [sm_child, sm_spouse], families = [sm_fam_1, sm_fam_2]\<rparr>"


















section \<open>Properties\<close>

lemma fold_tally:
  "fold (\<lambda>x. tally (c x) (f x)) xs r =
     \<lparr>passed = passed r @ map f (filter c xs),
      failed = failed r @ map f (filter (\<lambda>x. \<not> c x) xs)\<rparr>"
  by (induction xs arbitrary: r) (simp_all add: tally_def append_passed_def append_failed_def)

subsection \<open>US13 siblings_spacing\<close>

lemma combinations_short: "length xs < 2 \<Longrightarrow> combinations xs = []"
  by (cases xs) auto

lemma siblings_spacing_fam_eq:
  "siblings_spacing_fam g fam r =
     \<lparr>passed = passed r @ map (siblings_spacing_out g fam)
                  (filter siblings_spacing_ok (combinations (with_birth_date (children g fam)))),
      failed = failed r @ map (siblings_spacing_out g fam)
                  (filter (\<lambda>p. \<not> siblings_spacing_ok p) (combinations (with_birth_date (children g fam))))\<rparr>"
  by (simp add: siblings_spacing_fam_def Let_def fold_tally combinations_short)

lemma fold_siblings_spacing_fam:
  "fold (siblings_spacing_fam g) fs r =
     \<lparr>passed = passed r @ concat (map (\<lambda>fam. map (siblings_spacing_out g fam)
                  (filter siblings_spacing_ok (combinations (with_birth_date (children g fam))))) fs),
      failed = failed r @ concat (map (\<lambda>fam. map (siblings_spacing_out g fam)
                  (filter (\<lambda>p. \<not> siblings_spacing_ok p) (combinations (with_birth_date (children g fam))))) fs)\<rparr>"
  by (induction fs arbitrary: r) (simp_all add: siblings_spacing_fam_eq)

lemma passed_siblings_spacing:
  "set (passed (siblings_spacing g)) =
     (\<Union>fam \<in> set (families g). siblings_spacing_out g fam `
        {p \<in> set (combinations (with_birth_date (children g fam))). siblings_spacing_ok p})"
  by (simp add: siblings_spacing_def fold_siblings_spacing_fam r0_def)

lemma failed_siblings_spacing:
  "set (failed (siblings_spacing g)) =
     (\<Union>fam \<in> set (families g). siblings_spacing_out g fam `
        {p \<in> set (combinations (with_birth_date (children g fam))). \<not> siblings_spacing_ok p})"
  by (simp add: siblings_spacing_def fold_siblings_spacing_fam r0_def)

lemma siblings_spacing_out_days:
  "siblings_spacing_out g fam p = siblings_spacing_out g fam' p' \<Longrightarrow>
     siblings_spacing_ok p = siblings_spacing_ok p'"
  by (auto simp: siblings_spacing_out_def siblings_spacing_ok_def split: prod.splits)

lemma sib_children: "children sib_file sib_fam = [sib_1, sib_2]"
  by (simp add: children_def sib_file_def sib_fam_def sib_1_def sib_2_def find_individual_def
      List.map_filter_simps)

lemma sib_pairs:
  "combinations (with_birth_date (children sib_file sib_fam)) = [((sib_1, sib_birth_1), (sib_2, sib_birth_2))]"
  by (simp add: sib_children with_birth_date_def List.map_filter_simps sib_1_def sib_2_def)

lemma sib_days: "days_between (dt sib_birth_1) (dt sib_birth_2) = 2"
  by (simp add: days_between_def days_def sib_birth_1_def sib_birth_2_def mk_date_def toordinal_def
      days_before_year_def days_before_month_def is_leap_def)

text \<open>
  C4 (counterexample). The claim lets a pair of siblings born exactly 2 days apart pass.
  In \<open>sib_file\<close> the two children of the only family are born exactly 2 days apart;
  siblings_spacing passes nothing and puts the pair's evidence into \<open>failed\<close>.
\<close>

theorem siblings_spacing_two_days_counterexample:
  "days_between (dt sib_birth_1) (dt sib_birth_2) = 2 \<and>
   passed (siblings_spacing sib_file) = [] \<and>
   failed (siblings_spacing sib_file) =
     [siblings_spacing_out sib_file sib_fam ((sib_1, sib_birth_1), (sib_2, sib_birth_2))]"
proof -
  have ok: "\<not> siblings_spacing_ok ((sib_1, sib_birth_1), (sib_2, sib_birth_2))"
    by (simp add: siblings_spacing_ok_def sib_days)
  have fams: "families sib_file = [sib_fam]"
    by (simp add: sib_file_def)
  show ?thesis
    by (simp add: siblings_spacing_def fams siblings_spacing_fam_eq sib_pairs ok sib_days r0_def)
qed

text \<open>
  C4 (amended). For every family of the graph and every pair of its children that both
  have birth dates (a pair of \<open>combinations\<close>), the pair's evidence is appended to
  \<open>passed\<close> iff the birth dates are fewer than 2 days or more than 240 days apart, and
  to \<open>failed\<close> otherwise. So a pair born exactly 2 days apart fails (the claim said it
  passes), as does a pair 3 days or 240 days apart, and a pair 241 days apart passes.
\<close>

theorem siblings_spacing_boundaries:
  assumes fam: "fam \<in> set (families g)"
    and p: "p \<in> set (combinations (with_birth_date (children g fam)))"
    and pq: "p = ((sib_a, birth_a), (sib_b, birth_b))"
  shows "(siblings_spacing_out g fam p \<in> set (passed (siblings_spacing g)) \<longleftrightarrow>
           days_between (dt birth_a) (dt birth_b) < 2 \<or> days_between (dt birth_a) (dt birth_b) > 240)
       \<and> (siblings_spacing_out g fam p \<in> set (failed (siblings_spacing g)) \<longleftrightarrow>
           2 \<le> days_between (dt birth_a) (dt birth_b) \<and> days_between (dt birth_a) (dt birth_b) \<le> 240)
       \<and> (days_between (dt birth_a) (dt birth_b) \<in> {2, 3, 240} \<longrightarrow>
           siblings_spacing_out g fam p \<in> set (failed (siblings_spacing g)) \<and>
           siblings_spacing_out g fam p \<notin> set (passed (siblings_spacing g)))
       \<and> (days_between (dt birth_a) (dt birth_b) = 241 \<longrightarrow>
           siblings_spacing_out g fam p \<in> set (passed (siblings_spacing g)) \<and>
           siblings_spacing_out g fam p \<notin> set (failed (siblings_spacing g)))"
proof -
  have ok: "siblings_spacing_ok p \<longleftrightarrow>
      days_between (dt birth_a) (dt birth_b) < 2 \<or> days_between (dt birth_a) (dt birth_b) > 240"
    by (simp add: pq siblings_spacing_ok_def)
  have 1: "siblings_spacing_out g fam p \<in> set (passed (siblings_spacing g)) \<longleftrightarrow> siblings_spacing_ok p"
  proof
    assume "siblings_spacing_out g fam p \<in> set (passed (siblings_spacing g))"
    then obtain fam' p' where "siblings_spacing_out g fam p = siblings_spacing_out g fam' p'"
      and "siblings_spacing_ok p'"
      unfolding passed_siblings_spacing by blast
    then show "siblings_spacing_ok p" using siblings_spacing_out_days by blast
  next
    assume "siblings_spacing_ok p"
    then show "siblings_spacing_out g fam p \<in> set (passed (siblings_spacing g))"
      unfolding passed_siblings_spacing using fam p by blast
  qed
  have 2: "siblings_spacing_out g fam p \<in> set (failed (siblings_spacing g)) \<longleftrightarrow> \<not> siblings_spacing_ok p"
  proof
    assume "siblings_spacing_out g fam p \<in> set (failed (siblings_spacing g))"
    then obtain fam' p' where "siblings_spacing_out g fam p = siblings_spacing_out g fam' p'"
      and "\<not> siblings_spacing_ok p'"
      unfolding failed_siblings_spacing by blast
    then show "\<not> siblings_spacing_ok p" using siblings_spacing_out_days by blast
  next
    assume "\<not> siblings_spacing_ok p"
    then show "siblings_spacing_out g fam p \<in> set (failed (siblings_spacing g))"
      unfolding failed_siblings_spacing using fam p by blast
  qed
  show ?thesis unfolding 1 2 ok by auto
qed

theorem siblings_spacing_boundaries_witness:
  "siblings_spacing_out sib_file sib_fam ((sib_1, sib_birth_1), (sib_2, sib_birth_2))
     \<in> set (failed (siblings_spacing sib_file)) \<and>
   siblings_spacing_out sib_file sib_fam ((sib_1, sib_birth_1), (sib_2, sib_birth_2))
     \<notin> set (passed (siblings_spacing sib_file))"
proof -
  have fam: "sib_fam \<in> set (families sib_file)"
    by (simp add: sib_file_def)
  have p: "((sib_1, sib_birth_1), (sib_2, sib_birth_2))
      \<in> set (combinations (with_birth_date (children sib_file sib_fam)))"
    by (simp add: sib_pairs)
  show ?thesis
    using siblings_spacing_boundaries [OF fam p refl] by (simp add: sib_days)
qed

subsection \<open>US11 no_bigamy: the overlap test\<close>

lemma end_ge_dt_eq: "end_ge_dt e s = dt_le_end s e"
  by (cases e) simp_all

text \<open>
  C5. The overlap test of no_bigamy is symmetric: for all marriage intervals, each a start
  date and an end that is a date or the open end, the test gives the same truth value
  for \<open>(I1, I2)\<close> as for \<open>(I2, I1)\<close>.
\<close>

theorem no_bigamy_failed_symmetric:
  "no_bigamy_failed start1 end1 start2 end2 = no_bigamy_failed start2 end2 start1 end1"
  by (auto simp: no_bigamy_failed_def end_ge_dt_eq)

subsection \<open>The decorator story\<close>

text \<open>
  C6 (counterexample). The claim puts \<open>passed\<close> and \<open>failed\<close> among the top-level keys of
  the returned mapping. For siblings_spacing on \<open>sib_file\<close> the returned mapping has the
  keys \<open>id\<close>, \<open>name\<close> and \<open>output\<close> only.
\<close>

theorem story_keys_counterexample:
  "map_sum id keys
     (story ''Anomaly US13'' ''siblings_spacing'' (\<lambda>g. Inr (siblings_spacing g)) (GedcomFile sib_file))
   = Inr [''id'', ''name'', ''output'']"
  by (simp add: story_def ebind_def output_json_def)

text \<open>
  C6 (amended). For every story function and every gedcom file on which it returns \<open>r\<close>,
  the decorated function returns a mapping with the top-level keys \<open>id\<close>, \<open>name\<close> and
  \<open>output\<close>: the rule identifier, the rule name, and under \<open>output\<close> a mapping whose keys
  \<open>passed\<close> and \<open>failed\<close> hold the two evidence lists of \<open>r\<close>.
\<close>

theorem story_result_schema:
  assumes "func g = Inr r"
  shows "story story_id name func (GedcomFile g) =
           Inr (JDict [(''id'', JStr story_id), (''name'', JStr name), (''output'', output_json r)])
       \<and> keys (output_json r) = [''passed'', ''failed'']
       \<and> get (output_json r) ''passed'' = Some (JList (passed r))
       \<and> get (output_json r) ''failed'' = Some (JList (failed r))"
  using assms by (simp add: story_def ebind_def output_json_def)

theorem story_result_schema_witness:
  "story ''Anomaly US13'' ''siblings_spacing'' (\<lambda>g. Inr (siblings_spacing g)) (GedcomFile sib_file) =
     Inr (JDict [(''id'', JStr ''Anomaly US13''), (''name'', JStr ''siblings_spacing''),
                 (''output'', output_json (siblings_spacing sib_file))])
   \<and> get (output_json (siblings_spacing sib_file)) ''passed'' =
       Some (JList (passed (siblings_spacing sib_file)))"
  using story_result_schema [of "\<lambda>g. Inr (siblings_spacing g)" sib_file "siblings_spacing sib_file"
      "''Anomaly US13''" "''siblings_spacing''"]
  by simp

text \<open>
  C7 (the code at the failing input). \<open>mbd_file\<close> is a gedcom file whose only family has a
  marriage date and neither husband nor wife. The decorated marriage_before_death raises
  AttributeError on it: \<open>fam.husband\<close> is \<open>None\<close> where the source evaluates
  \<open>fam.husband.has("death_date")\<close>. On an argument that is not a gedcom file it raises
  TypeError.
\<close>

theorem marriage_before_death_raises:
  "story ''Error US05'' ''marriage_before_death'' marriage_before_death NotGedcomFile
     = Inl TypeError \<and>
   story ''Error US05'' ''marriage_before_death'' marriage_before_death (GedcomFile mbd_file)
     = Inl AttributeError"
  by (simp add: story_def marriage_before_death_def mbd_file_def mbd_fam_def with_marriage_date_def
      List.map_filter_simps marriage_before_death_fam_def has_death_date_def husband_def ebind_def)

subsection \<open>US10 marriage_after_14\<close>

lemma ma_husband_wife: "husband ma_file ma_fam = Some ma_husband" "wife ma_file ma_fam = Some ma_wife"
  by (simp_all add: husband_def wife_def find_individual_def ma_file_def ma_fam_def ma_husband_def ma_wife_def)

lemma ma_ages: "marriage_age ma_marriage ma_husband_birth = 14" "marriage_age ma_marriage ma_wife_birth = 30"
  by (simp_all add: marriage_age_def years_between_def ma_marriage_def ma_husband_birth_def
      ma_wife_birth_def mk_date_def)

lemma ma_fields:
  "marriage_date ma_fam = Some ma_marriage" "birth_date ma_husband = Some ma_husband_birth"
  "birth_date ma_wife = Some ma_wife_birth"
  by (simp_all add: ma_fam_def ma_husband_def ma_wife_def)

text \<open>
  C9 (the code at the failing input). In \<open>ma_file\<close> the husband marries exactly 14 years
  after his birth, the wife at 30. marriage_after_14 tests \<open>marriage_age > 14\<close> for
  each spouse and appends the family's evidence to \<open>failed\<close>.
\<close>

theorem marriage_after_14_at_14:
  "marriage_age ma_marriage ma_husband_birth = 14 \<and>
   marriage_after_14 ma_file =
     \<lparr>passed = [],
      failed = [marriage_after_14_out ma_fam ma_marriage ma_wife ma_wife_birth ma_husband ma_husband_birth]\<rparr>"
proof -
  have fams: "families ma_file = [ma_fam]"
    by (simp add: ma_file_def)
  have "marriage_after_14_fam ma_file ma_fam r0 =
      \<lparr>passed = [],
       failed = [marriage_after_14_out ma_fam ma_marriage ma_wife ma_wife_birth ma_husband ma_husband_birth]\<rparr>"
    by (simp add: marriage_after_14_fam_def ma_husband_wife ma_fields ma_ages tally_def
        append_failed_def r0_def)
  then show ?thesis
    by (simp add: marriage_after_14_def fams ma_ages)
qed

subsection \<open>US06 divorce_before_death\<close>

lemma db_husband_wife: "husband db_file db_fam = Some db_husband" "wife db_file db_fam = Some db_wife"
  by (simp_all add: husband_def wife_def find_individual_def db_file_def db_fam_def db_husband_def db_wife_def)

lemma db_fields:
  "divorce_date db_fam = Some db_divorce" "death_date db_husband = None"
  "death_date db_wife = Some db_wife_death" "fam_xref db_fam = ''F1''"
  "xref db_husband = ''I1''" "xref db_wife = ''I2''"
  by (simp_all add: db_fam_def db_husband_def db_wife_def)

lemma db_order: "date_less db_divorce db_wife_death" "\<not> date_less db_wife_death db_divorce"
  by (simp_all add: date_less_def dt_less_def db_divorce_def db_wife_death_def mk_date_def)

text \<open>
  C3 (the code at the failing input). In \<open>db_file\<close> the divorce precedes the death of the
  wife, the only spouse with a death date. divorce_before_death tests
  \<open>fam.wife.death_date < fam.divorce_date\<close> and appends the family's evidence to
  \<open>failed\<close>.
\<close>

theorem divorce_before_death_reversed:
  "date_less db_divorce db_wife_death \<and>
   divorce_before_death db_file =
     Inr \<lparr>passed = [],
          failed = [JDict [(''family_xref'', JStr ''F1''),
                           (''divorce_date'', story_dict db_divorce),
                           (''husband_xref'', JStr ''I1''),
                           (''wife_xref'', JStr ''I2''),
                           (''husband_death_date'', JNone),
                           (''wife_death_date'', JNone)]]\<rparr>"
proof -
  have fams: "with_divorce_date (families db_file) = [(db_fam, db_divorce)]"
    by (simp add: db_file_def with_divorce_date_def List.map_filter_simps db_fields)
  have out: "divorce_before_death_out db_file db_fam db_divorce =
      Inr (JDict [(''family_xref'', JStr ''F1''), (''divorce_date'', story_dict db_divorce),
                  (''husband_xref'', JStr ''I1''), (''wife_xref'', JStr ''I2''),
                  (''husband_death_date'', JNone), (''wife_death_date'', JNone)])"
    by (simp add: divorce_before_death_out_def divorce_before_death_wife_death_date_def
        db_husband_wife db_fields spouse_death_def ebind_def xref_or_None_def story_dict_or_None_def)
  show ?thesis
    by (simp add: divorce_before_death_def fams divorce_before_death_fam_def out ebind_def
        has_death_date_def db_husband_wife db_fields db_order tally_def append_failed_def r0_def)
qed

subsection \<open>US09 birth_before_death_of_parents\<close>

lemma bp_parents: "husband bp_file bp_fam = Some bp_father" "wife bp_file bp_fam = Some bp_mother"
  by (simp_all add: husband_def wife_def find_individual_def bp_file_def bp_fam_def bp_father_def
      bp_mother_def)

lemma bp_children: "with_birth_date (children bp_file bp_fam) = [(bp_child, bp_child_birth)]"
  by (simp add: with_birth_date_def children_def find_individual_def bp_file_def bp_fam_def
      bp_father_def bp_mother_def bp_child_def List.map_filter_simps)

lemma bp_fields:
  "birth_date bp_father = Some bp_father_birth" "death_date bp_father = Some bp_father_death"
  "birth_date bp_mother = Some bp_mother_birth" "death_date bp_mother = Some bp_mother_death"
  by (simp_all add: bp_father_def bp_mother_def)

lemma bp_mom: "date_less bp_child_birth bp_mother_death" "\<not> date_less bp_child_birth bp_mother_birth"
  by (simp_all add: date_less_def dt_less_def bp_child_birth_def bp_mother_death_def
      bp_mother_birth_def mk_date_def)

lemma bp_days:
  "days (dt bp_child_birth) (dt bp_father_death) = - 6940"
  "days (dt bp_father_birth) (dt bp_child_birth) = - 11688"
  by (simp_all add: days_def toordinal_def days_before_year_def days_before_month_def is_leap_def
      bp_child_birth_def bp_father_death_def bp_father_birth_def mk_date_def)

text \<open>
  C2 (the code at the failing input). In \<open>bp_file\<close> the child is born before the death of
  the mother and before the death of the father, so both clauses of the claim hold.
  birth_before_death_of_parents compares the child's birth with the births of the
  parents, finds both clauses false and appends the child's evidence to \<open>failed\<close>.
\<close>

theorem birth_before_death_of_parents_reads_births:
  "date_less bp_child_birth bp_mother_death \<and>
   days (dt bp_child_birth) (dt bp_father_death) div 30 \<le> 9 \<and>
   birth_before_death_of_parents bp_file =
     Inr \<lparr>passed = [],
          failed = [birth_before_death_of_parents_out bp_file bp_fam bp_child bp_child_birth
                      (Some False) (Some False)]\<rparr>"
proof -
  have fams: "families bp_file = [bp_fam]"
    by (simp add: bp_file_def)
  have mom: "mom_pass bp_file bp_fam bp_child_birth = Inr (Some False)"
    by (simp add: mom_pass_def bp_parents spouse_death_def spouse_birth_def bp_fields bp_mom)
  have dad: "dad_pass bp_file bp_fam bp_child_birth = Inr (Some False)"
    by (simp add: dad_pass_def bp_parents spouse_death_def spouse_birth_def bp_fields bp_days)
  have "birth_before_death_of_parents bp_file =
     Inr \<lparr>passed = [],
          failed = [birth_before_death_of_parents_out bp_file bp_fam bp_child bp_child_birth
                      (Some False) (Some False)]\<rparr>"
    by (simp add: birth_before_death_of_parents_def fams birth_before_death_of_parents_fam_def
        bp_children birth_before_death_of_parents_child_def mom dad ebind_def tally_def
        append_failed_def r0_def)
  then show ?thesis
    by (simp add: bp_mom bp_days)
qed

subsection \<open>US18 siblings_should_not_marry\<close>

lemma sm_children:
  "children sm_file sm_fam_1 = [sm_child]" "children sm_file sm_fam_2 = []"
  by (simp_all add: children_def find_individual_def sm_file_def sm_fam_1_def sm_fam_2_def
      sm_child_def sm_spouse_def List.map_filter_simps)

lemma sm_spouses: "spouses sm_file sm_child = [sm_spouse]"
  by (simp add: spouses_def counterpart_def wife_def husband_def find_individual_def sm_file_def
      sm_fam_1_def sm_fam_2_def sm_child_def sm_spouse_def List.map_filter_simps)

text \<open>
  C10 (the code at the failing input). In \<open>sm_file\<close> the only child of the first family
  has a spouse. siblings_should_not_marry raises UnboundLocalError: the loop over the
  siblings is empty, and \<open>out\<close> and \<open>msg_out\<close> are read after it without ever having
  been assigned.
\<close>

theorem siblings_should_not_marry_only_child_raises:
  "siblings_should_not_marry sm_file = Inl UnboundLocalError"
proof -
  have fams: "families sm_file = [sm_fam_1, sm_fam_2]"
    by (simp add: sm_file_def)
  have "siblings_should_not_marry_spouse sm_file sm_fam_1 sm_child sm_spouse (r0, None)
      = Inl UnboundLocalError"
    by (simp add: siblings_should_not_marry_spouse_def sm_children)
  then have "siblings_should_not_marry_fam sm_file sm_fam_1 (r0, None) = Inl UnboundLocalError"
    by (simp add: siblings_should_not_marry_fam_def sm_children siblings_should_not_marry_indi_def
        sm_spouses)
  then show ?thesis
    by (simp add: siblings_should_not_marry_def fams ebind_def)
qed

subsection \<open>Missing data\<close>

















lemma unnamed_empty: "evidence r = {} \<Longrightarrow> unnamed path x r"
  by (simp add: unnamed_def)

subsubsection \<open>US01\<close>


subsubsection \<open>US03, US04, US07\<close>







subsubsection \<open>US02\<close>





subsubsection \<open>US08\<close>





subsubsection \<open>US10\<close>




subsubsection \<open>US12\<close>





subsubsection \<open>US13\<close>



subsubsection \<open>Loops that keep a property\<close>




subsubsection \<open>US05\<close>



subsubsection \<open>US06\<close>




subsubsection \<open>US11\<close>





subsubsection \<open>US18\<close>









subsubsection \<open>US09\<close>
















subsubsection \<open>The example graphs\<close>






























end
